theory Spec2Isabelle
  imports Complex_Main
begin

section \<open>The EMA-cross market-entry strategy\<close>

text \<open>
  A shallow embedding of \<^verbatim>\<open>examples/strategies/ema_cross_market_entry.py\<close>
  (class \<^verbatim>\<open>EMACrossMarketEntryPy\<close>). Each handler of the class is a function from
  the strategy object and a snapshot of what the handler reads from its base class and
  collaborators to the commands it issues, the strategy object afterwards and the
  exception it raised, if any.

  Prices, indicator values and the float parameters are read as exact numbers
  (\<^typ>\<open>real\<close>); \<^verbatim>\<open>Price(x)\<close> is the number \<open>x\<close>. Quantities are integers.
\<close>

subsection \<open>Data model\<close>

record Symbol =
  sym_code :: string
  sym_venue :: string

record BarSpecification =
  spec_step :: int
  spec_aggregation :: string
  spec_price_type :: string

type_synonym BarType = "Symbol \<times> BarSpecification"

record Tick =
  tick_bid :: real
  tick_ask :: real

record Bar =
  bar_open :: real
  bar_high :: real
  bar_low :: real
  bar_close :: real

record Instrument =
  inst_symbol :: Symbol
  tick_size :: real
  tick_precision :: nat
  quote_currency :: string

datatype OrderSide = BUY | SELL

datatype OrderPurpose = NONE | ENTRY | STOP_LOSS | TAKE_PROFIT

datatype OrderState =
  INITIALIZED | SUBMITTED | WORKING | PARTIALLY_FILLED | FILLED | REJECTED | CANCELLED | EXPIRED

text \<open>An order; the price is absent (\<open>None\<close>) on a market order.\<close>

record Order =
  order_id :: nat
  order_side :: OrderSide
  order_quantity :: int
  order_price :: "real option"
  order_purpose :: OrderPurpose
  order_state :: OrderState

definition is_sell :: "Order \<Rightarrow> bool" where
  "is_sell ord \<longleftrightarrow> order_side ord = SELL"

definition is_buy :: "Order \<Rightarrow> bool" where
  "is_buy ord \<longleftrightarrow> order_side ord = BUY"

text \<open>
  The value of \<^verbatim>\<open>order_factory.atomic_market(...)\<close>: the factory is not part of
  the strategy, so the atomic order is recorded by the arguments the strategy passes.
\<close>

record AtomicOrder =
  ao_symbol :: Symbol
  ao_side :: OrderSide
  ao_quantity :: int
  ao_price_stop_loss :: real
  ao_price_take_profit :: real

record Position =
  position_id :: nat
  is_open :: bool

text \<open>An indicator object: its period, its current value and whether it has warmed up.\<close>

record Indicator =
  ind_period :: int
  ind_value :: real
  ind_initialized :: bool

text \<open>The keyword arguments of \<^verbatim>\<open>position_sizer.calculate\<close>.\<close>

record SizingRequest =
  sz_equity :: real
  sz_exchange_rate :: real
  sz_risk_bp :: real
  sz_price_entry :: real
  sz_price_stop_loss :: real
  sz_commission_rate_bp :: real
  sz_hard_limit :: int
  sz_units :: int
  sz_unit_batch_size :: int

text \<open>
  \<^verbatim>\<open>FixedRiskSizer.calculate\<close> is not part of the strategy: the handlers take it
  as a parameter, a function of the sizer's instrument and the request to the value of the
  returned quantity.
\<close>

type_synonym Sizer = "Instrument \<Rightarrow> SizingRequest \<Rightarrow> int"

text \<open>The attributes of \<^verbatim>\<open>self\<close>.\<close>

record Strategy =
  symbol :: Symbol
  bar_type :: BarType
  order_id_tag :: string
  bar_capacity :: int
  risk_bp :: real
  entry_buffer :: real
  SL_buffer :: real
  SL_atr_multiple :: real
  instrument :: "Instrument option"
  position_sizer :: "Instrument option"
  spread_analyzer :: "nat option"
  liquidity :: "(real \<times> real) option"
  fast_ema :: Indicator
  slow_ema :: Indicator
  atr :: Indicator

text \<open>
  \<open>position_sizer\<close> holds the instrument the \<^verbatim>\<open>FixedRiskSizer\<close> was built
  with, \<open>spread_analyzer\<close> the tick precision the \<^verbatim>\<open>SpreadAnalyzer\<close> was built
  with, \<open>liquidity\<close> the arguments of the last \<^verbatim>\<open>liquidity.update\<close>; each is
  \<open>None\<close> as long as the attribute is \<^verbatim>\<open>None\<close> (or, for \<open>liquidity\<close>, has
  not been updated).
\<close>

text \<open>
  What a handler reads, at the moment it runs, from the \<^verbatim>\<open>TradingStrategy\<close>
  base class and its collaborators: the tick history per symbol (most recent first), the
  order table, the positions, the position each order was recorded under, the average
  spread the spread analyzer reports after \<^verbatim>\<open>calculate_metrics()\<close>, the
  account's free equity, the exchange rates, the instrument cache of the data client and
  the next identifier of the position-id generator.
\<close>

record Framework =
  ticks :: "Symbol \<Rightarrow> Tick list"
  orders :: "Order list"
  positions :: "Position list"
  order_positions :: "(nat \<times> nat) list"
  average_spread :: real
  free_equity :: real
  exchange_rates :: "string \<Rightarrow> real"
  instruments :: "Symbol \<Rightarrow> Instrument option"
  next_position_id :: nat

datatype LogEntry =
  Received_Bar BarType Bar
| Insufficient_Equity OrderSide
| Updated_Instrument Instrument

text \<open>The commands a handler issues, in the order it issues them.\<close>

datatype Action =
  LogInfo LogEntry
| RequestBars BarType
| SubscribeInstrument Symbol
| SubscribeBars BarType
| SubscribeTicks Symbol
| SubmitAtomicOrder AtomicOrder nat
| ModifyOrder Order int real
| FlattenPosition nat

datatype Error = AttributeError | IndexError | TypeError | ValueError

text \<open>
  The outcome of a handler: the commands issued, the strategy object afterwards and the
  exception that ended the handler, if one did.
\<close>

type_synonym Outcome = "Action list \<times> Strategy \<times> Error option"

subsection \<open>The base-class queries the handlers use\<close>

text \<open>
  Modelled from the spec: \<^verbatim>\<open>TradingStrategy.indicators_initialized\<close> is not in
  the sources. All registered indicators report initialized; the constructor registers the
  fast EMA, the slow EMA and the ATR.
\<close>

definition indicators_initialized :: "Strategy \<Rightarrow> bool" where
  "indicators_initialized s \<longleftrightarrow>
     ind_initialized (fast_ema s) \<and> ind_initialized (slow_ema s) \<and> ind_initialized (atr s)"

text \<open>
  Modelled from the spec: \<^verbatim>\<open>TradingStrategy.has_ticks\<close> and
  \<^verbatim>\<open>TradingStrategy.tick\<close> are not in the sources. Ticks are kept per symbol in a
  recent-history buffer; index 0 is the most recent one, and an index beyond the buffer
  raises.
\<close>

definition has_ticks :: "Framework \<Rightarrow> Symbol \<Rightarrow> bool" where
  "has_ticks fw sy \<longleftrightarrow> ticks fw sy \<noteq> []"

definition tick :: "Framework \<Rightarrow> Symbol \<Rightarrow> nat \<Rightarrow> Error + Tick" where
  "tick fw sy index =
     (if index < length (ticks fw sy) then Inr (ticks fw sy ! index) else Inl IndexError)"

text \<open>
  Modelled from the spec: \<^verbatim>\<open>TradingStrategy.orders_working\<close> is not in the
  sources. The orders of the table that are in state \<open>WORKING\<close>.
\<close>

definition orders_working :: "Framework \<Rightarrow> Order list" where
  "orders_working fw = filter (\<lambda>ord. order_state ord = WORKING) (orders fw)"

text \<open>
  Modelled from the spec: \<^verbatim>\<open>TradingStrategy.is_flat\<close> is not in the sources.
  The strategy is flat when none of its positions is open.
\<close>

definition is_flat :: "Framework \<Rightarrow> bool" where
  "is_flat fw \<longleftrightarrow> list_all (\<lambda>p. \<not> is_open p) (positions fw)"

text \<open>
  Modelled from the spec: \<^verbatim>\<open>TradingStrategy.position_for_order\<close> is not in the
  sources. Orders are recorded under a position identifier when they are submitted; the
  lookup goes from the order's identifier to that position, and gives \<open>None\<close> when
  there is none.
\<close>

definition position_for_order :: "Framework \<Rightarrow> nat \<Rightarrow> Position option" where
  "position_for_order fw oid =
     (case map_of (order_positions fw) oid of
        None \<Rightarrow> None
      | Some pid \<Rightarrow> find (\<lambda>p. position_id p = pid) (positions fw))"

definition get_exchange_rate :: "Framework \<Rightarrow> string \<Rightarrow> real" where
  "get_exchange_rate fw currency = exchange_rates fw currency"

definition get_instrument :: "Framework \<Rightarrow> Symbol \<Rightarrow> Instrument option" where
  "get_instrument fw sy = instruments fw sy"

subsection \<open>\<^verbatim>\<open>on_bar\<close>: the entry logic\<close>

text \<open>
  Lines 128 to 152, the body of the BUY branch: the atomic order to submit, if any, after
  the messages logged; or the exception raised.
\<close>

definition buy_logic ::
  "Sizer \<Rightarrow> Strategy \<Rightarrow> Framework \<Rightarrow> Bar \<Rightarrow> Action list \<times> (Error + AtomicOrder option)" where
  "buy_logic calculate s fw bar =
     (case tick fw (symbol s) 0 of
        Inl e \<Rightarrow> ([], Inl e)
      | Inr t \<Rightarrow>
          let price_entry = tick_ask t;
              price_stop_loss = bar_low bar - (ind_value (atr s) * SL_atr_multiple s);
              price_take_profit = price_entry + (price_entry - price_stop_loss)
          in (case instrument s of
                None \<Rightarrow> ([], Inl AttributeError)
              | Some inst \<Rightarrow>
                  let exchange_rate = get_exchange_rate fw (quote_currency inst)
                  in (case position_sizer s of
                        None \<Rightarrow> ([], Inl AttributeError)
                      | Some sizer_inst \<Rightarrow>
                          let position_size = calculate sizer_inst
                                \<lparr>sz_equity = free_equity fw,
                                 sz_exchange_rate = exchange_rate,
                                 sz_risk_bp = risk_bp s,
                                 sz_price_entry = price_entry,
                                 sz_price_stop_loss = price_stop_loss,
                                 sz_commission_rate_bp = 15 / 100,
                                 sz_hard_limit = 20000000,
                                 sz_units = 1,
                                 sz_unit_batch_size = 10000\<rparr>
                          in if position_size > 0
                             then ([], Inr (Some
                                    \<lparr>ao_symbol = symbol s,
                                     ao_side = BUY,
                                     ao_quantity = position_size,
                                     ao_price_stop_loss = price_stop_loss,
                                     ao_price_take_profit = price_take_profit\<rparr>))
                             else ([LogInfo (Insufficient_Equity BUY)], Inr None))))"

text \<open>Lines 155 to 180, the body of the SELL branch.\<close>

definition sell_logic ::
  "Sizer \<Rightarrow> Strategy \<Rightarrow> Framework \<Rightarrow> Bar \<Rightarrow> Action list \<times> (Error + AtomicOrder option)" where
  "sell_logic calculate s fw bar =
     (case tick fw (symbol s) 0 of
        Inl e \<Rightarrow> ([], Inl e)
      | Inr t \<Rightarrow>
          let price_entry = tick_bid t;
              price_stop_loss =
                bar_high bar + (ind_value (atr s) * SL_atr_multiple s) + average_spread fw;
              price_take_profit = price_entry - (price_stop_loss - price_entry)
          in (case instrument s of
                None \<Rightarrow> ([], Inl AttributeError)
              | Some inst \<Rightarrow>
                  let exchange_rate = get_exchange_rate fw (quote_currency inst)
                  in (case position_sizer s of
                        None \<Rightarrow> ([], Inl AttributeError)
                      | Some sizer_inst \<Rightarrow>
                          let position_size = calculate sizer_inst
                                \<lparr>sz_equity = free_equity fw,
                                 sz_exchange_rate = exchange_rate,
                                 sz_risk_bp = risk_bp s,
                                 sz_price_entry = price_entry,
                                 sz_price_stop_loss = price_stop_loss,
                                 sz_commission_rate_bp = 15 / 100,
                                 sz_hard_limit = 20000000,
                                 sz_units = 1,
                                 sz_unit_batch_size = 10000\<rparr>
                          in if position_size > 0
                             then ([], Inr (Some
                                    \<lparr>ao_symbol = symbol s,
                                     ao_side = SELL,
                                     ao_quantity = position_size,
                                     ao_price_stop_loss = price_stop_loss,
                                     ao_price_take_profit = price_take_profit\<rparr>))
                             else ([LogInfo (Insufficient_Equity SELL)], Inr None))))"

text \<open>
  Lines 124 to 184: the guard on working orders and flatness, the choice of the branch and
  the submission. \<^verbatim>\<open>submit_atomic_order\<close> is a command to the execution
  gateway, confirmed by events that are dispatched after the handler has run to
  completion: the submitted orders are recorded as \<open>SUBMITTED\<close>, and become
  \<open>WORKING\<close> only through a later event, so the order table the handler reads does
  not change while it runs.
\<close>

definition entry_logic ::
  "Sizer \<Rightarrow> Strategy \<Rightarrow> Framework \<Rightarrow> Bar \<Rightarrow> Action list \<times> Error option" where
  "entry_logic calculate s fw bar =
     (if length (orders_working fw) = 0 \<and> is_flat fw then
        (case (if ind_value (fast_ema s) \<ge> ind_value (slow_ema s)
               then buy_logic calculate s fw bar
               else if ind_value (fast_ema s) < ind_value (slow_ema s)
               then sell_logic calculate s fw bar
               else ([], Inr None)) of
           (logged, Inl e) \<Rightarrow> (logged, Some e)
         | (logged, Inr None) \<Rightarrow> (logged, None)
         | (logged, Inr (Some atomic_order)) \<Rightarrow>
             (logged @ [SubmitAtomicOrder atomic_order (next_position_id fw)], None))
      else ([], None))"

subsection \<open>\<^verbatim>\<open>on_bar\<close>: the trailing stop\<close>

text \<open>
  Lines 188 to 199, the body of the loop for one working order: the modification
  requested, if any, or the exception raised. Comparing a price with the absent price of
  an order raises.
\<close>

definition trailing_stop_order ::
  "Strategy \<Rightarrow> Framework \<Rightarrow> Bar \<Rightarrow> Order \<Rightarrow> Action list \<times> Error option" where
  "trailing_stop_order s fw bar working_order =
     (if order_purpose working_order = STOP_LOSS then
        (if is_sell working_order then
           (let temp_price = bar_low bar - (ind_value (atr s) * SL_atr_multiple s)
            in case order_price working_order of
                 None \<Rightarrow> ([], Some TypeError)
               | Some current \<Rightarrow>
                   if temp_price > current
                   then ([ModifyOrder working_order (order_quantity working_order) temp_price],
                         None)
                   else ([], None))
         else if is_buy working_order then
           (let temp_price =
                  bar_high bar + (ind_value (atr s) * SL_atr_multiple s) + average_spread fw
            in case order_price working_order of
                 None \<Rightarrow> ([], Some TypeError)
               | Some current \<Rightarrow>
                   if temp_price < current
                   then ([ModifyOrder working_order (order_quantity working_order) temp_price],
                         None)
                   else ([], None))
         else ([], None))
      else ([], None))"

text \<open>Line 187, the loop: it stops at the first exception.\<close>

fun trailing_stop_logic ::
  "Strategy \<Rightarrow> Framework \<Rightarrow> Bar \<Rightarrow> Order list \<Rightarrow> Action list \<times> Error option" where
  "trailing_stop_logic s fw bar [] = ([], None)"
| "trailing_stop_logic s fw bar (working_order # rest) =
     (case trailing_stop_order s fw bar working_order of
        (requested, Some e) \<Rightarrow> (requested, Some e)
      | (requested, None) \<Rightarrow>
          (case trailing_stop_logic s fw bar rest of
             (later, raised) \<Rightarrow> (requested @ later, raised)))"

subsection \<open>\<^verbatim>\<open>on_bar\<close>\<close>

definition on_bar :: "Sizer \<Rightarrow> Strategy \<Rightarrow> Framework \<Rightarrow> BarType \<Rightarrow> Bar \<Rightarrow> Outcome" where
  "on_bar calculate s fw bt bar =
     (let received = [LogInfo (Received_Bar bt bar)]
      in if \<not> indicators_initialized s then (received, s, None)
         else if \<not> has_ticks fw (symbol s) then (received, s, None)
         else (case spread_analyzer s of
                 None \<Rightarrow> (received, s, Some AttributeError)
               | Some precision \<Rightarrow>
                   let s' = s\<lparr>liquidity := Some (average_spread fw, ind_value (atr s))\<rparr>
                   in (case entry_logic calculate s' fw bar of
                         (entered, Some e) \<Rightarrow> (received @ entered, s', Some e)
                       | (entered, None) \<Rightarrow>
                           (case trailing_stop_logic s' fw bar (orders_working fw) of
                              (trailed, raised) \<Rightarrow>
                                (received @ entered @ trailed, s', raised)))))"

subsection \<open>\<^verbatim>\<open>__init__\<close> and \<^verbatim>\<open>on_start\<close>\<close>

text \<open>
  The constructors \<^verbatim>\<open>ExponentialMovingAverage\<close> and
  \<^verbatim>\<open>AverageTrueRange\<close> belong to another package: \<open>init\<close> takes them as
  parameters, functions of the period to the new indicator or the exception raised. The
  strategy's own arguments are stored as they come. The constructor of the base class,
  \<^verbatim>\<open>BarType\<close> and \<^verbatim>\<open>LiquidityAnalyzer\<close> receive none of the risk, the
  periods and the multiple, and are taken to succeed.
\<close>

definition init ::
  "(int \<Rightarrow> Error + Indicator) \<Rightarrow> (int \<Rightarrow> Error + Indicator) \<Rightarrow>
   Symbol \<Rightarrow> BarSpecification \<Rightarrow> real \<Rightarrow> int \<Rightarrow> int \<Rightarrow> int \<Rightarrow> real \<Rightarrow> Error + Strategy" where
  "init ExponentialMovingAverage AverageTrueRange
        symbol_arg bar_spec risk_bp_arg fast_ema_arg slow_ema_arg atr_period sl_atr_multiple =
     (case ExponentialMovingAverage fast_ema_arg of
        Inl e \<Rightarrow> Inl e
      | Inr fast \<Rightarrow>
          (case ExponentialMovingAverage slow_ema_arg of
             Inl e \<Rightarrow> Inl e
           | Inr slow \<Rightarrow>
               (case AverageTrueRange atr_period of
                  Inl e \<Rightarrow> Inl e
                | Inr atr_ind \<Rightarrow>
                    Inr \<lparr>symbol = symbol_arg,
                         bar_type = (symbol_arg, bar_spec),
                         order_id_tag = sym_code symbol_arg,
                         bar_capacity = 40,
                         risk_bp = risk_bp_arg,
                         entry_buffer = 0,
                         SL_buffer = 0,
                         SL_atr_multiple = sl_atr_multiple,
                         instrument = None,
                         position_sizer = None,
                         spread_analyzer = None,
                         liquidity = None,
                         fast_ema = fast,
                         slow_ema = slow,
                         atr = atr_ind\<rparr>)))"

text \<open>
  Lines 81 to 90. When the data client has no instrument for the symbol,
  \<^verbatim>\<open>self.instrument\<close> stays \<^verbatim>\<open>None\<close> and reading its tick size raises.
\<close>

definition on_start :: "Strategy \<Rightarrow> Framework \<Rightarrow> Outcome" where
  "on_start s fw =
     (case get_instrument fw (symbol s) of
        None \<Rightarrow> ([], s\<lparr>instrument := None\<rparr>, Some AttributeError)
      | Some inst \<Rightarrow>
          ([RequestBars (bar_type s),
            SubscribeInstrument (symbol s),
            SubscribeBars (bar_type s),
            SubscribeTicks (symbol s)],
           s\<lparr>instrument := Some inst,
             entry_buffer := tick_size inst,
             SL_buffer := tick_size inst * 10,
             position_sizer := Some inst,
             spread_analyzer := Some (tick_precision inst)\<rparr>,
           None))"

subsection \<open>\<^verbatim>\<open>on_instrument\<close> and \<^verbatim>\<open>on_event\<close>\<close>

text \<open>Lines 207 to 210. The comparison is with the symbol of the cached instrument.\<close>

definition on_instrument :: "Strategy \<Rightarrow> Instrument \<Rightarrow> Outcome" where
  "on_instrument s inst =
     (case instrument s of
        None \<Rightarrow> ([], s, Some AttributeError)
      | Some cached \<Rightarrow>
          ([LogInfo (Updated_Instrument inst)],
           (if inst_symbol cached = inst_symbol inst then s\<lparr>instrument := Some inst\<rparr> else s),
           None))"

text \<open>
  The events a strategy receives: the rejection of an order, with the order's identifier,
  or any other event.
\<close>

datatype Event = OrderRejected nat | OtherEvent

text \<open>Lines 221 to 224.\<close>

definition on_event :: "Strategy \<Rightarrow> Framework \<Rightarrow> Event \<Rightarrow> Outcome" where
  "on_event s fw event =
     (case event of
        OrderRejected rejected_id \<Rightarrow>
          (case position_for_order fw rejected_id of
             None \<Rightarrow> ([], s, None)
           | Some position \<Rightarrow>
               if is_open position
               then ([FlattenPosition (position_id position)], s, None)
               else ([], s, None))
      | OtherEvent \<Rightarrow> ([], s, None))"

subsection \<open>Commands by kind\<close>

fun is_submission :: "Action \<Rightarrow> bool" where
  "is_submission (SubmitAtomicOrder _ _) = True"
| "is_submission _ = False"

fun is_trading_action :: "Action \<Rightarrow> bool" where
  "is_trading_action (SubmitAtomicOrder _ _) = True"
| "is_trading_action (ModifyOrder _ _ _) = True"
| "is_trading_action (FlattenPosition _) = True"
| "is_trading_action _ = False"

subsection \<open>The stop price over a sequence of bars\<close>

text \<open>
  Modelled from the spec: the effect of \<^verbatim>\<open>modify_order\<close> on the order table is
  not in the sources. A modification is permitted only while the order is \<open>WORKING\<close>;
  the order then carries the new quantity and the new price.
\<close>

definition modify_order :: "Order \<Rightarrow> int \<Rightarrow> real \<Rightarrow> Order list \<Rightarrow> Order list" where
  "modify_order target new_quantity new_price table =
     map (\<lambda>ord. if order_id ord = order_id target \<and> order_state ord = WORKING
                then ord\<lparr>order_quantity := new_quantity, order_price := Some new_price\<rparr>
                else ord) table"

fun apply_modifications :: "Action list \<Rightarrow> Order list \<Rightarrow> Order list" where
  "apply_modifications [] table = table"
| "apply_modifications (ModifyOrder target q p # rest) table =
     apply_modifications rest (modify_order target q p table)"
| "apply_modifications (_ # rest) table = apply_modifications rest table"

text \<open>
  A sequence of bars: at each bar the strategy object, the market snapshot and the bar are
  arbitrary, and the order table is the one the modifications requested at the bars before
  have produced. The value is the list of the order tables, from the first on.
\<close>

fun run_bars ::
  "Sizer \<Rightarrow> Order list \<Rightarrow> (Strategy \<times> Framework \<times> BarType \<times> Bar) list \<Rightarrow> Order list list" where
  "run_bars calculate table [] = [table]"
| "run_bars calculate table ((s, fw, bt, bar) # rest) =
     table # run_bars calculate
               (apply_modifications (fst (on_bar calculate s (fw\<lparr>orders := table\<rparr>) bt bar)) table)
               rest"

definition stop_price :: "nat \<Rightarrow> Order list \<Rightarrow> real option" where
  "stop_price oid table =
     (case find (\<lambda>ord. order_id ord = oid) table of
        None \<Rightarrow> None
      | Some ord \<Rightarrow> order_price ord)"

text \<open>
  The strategy has been started for its symbol: the instrument is cached under the
  strategy's symbol.
\<close>

definition instrument_cached :: "Strategy \<Rightarrow> bool" where
  "instrument_cached s \<longleftrightarrow>
     (case instrument s of None \<Rightarrow> False | Some cached \<Rightarrow> inst_symbol cached = symbol s)"

subsection \<open>A concrete session\<close>

text \<open>
  Modelled from the spec: an indicator constructor that accepts the periods of the
  configuration surface (\<open>int > 0\<close>) and rejects the others.
\<close>

definition checked_indicator :: "int \<Rightarrow> Error + Indicator" where
  "checked_indicator period =
     (if period > 0
      then Inr \<lparr>ind_period = period, ind_value = 0, ind_initialized = False\<rparr>
      else Inl ValueError)"

definition audusd :: Symbol where
  "audusd = \<lparr>sym_code = ''AUDUSD'', sym_venue = ''FXCM''\<rparr>"

definition gbpusd :: Symbol where
  "gbpusd = \<lparr>sym_code = ''GBPUSD'', sym_venue = ''FXCM''\<rparr>"

definition minute_bars :: BarSpecification where
  "minute_bars = \<lparr>spec_step = 1, spec_aggregation = ''MINUTE'', spec_price_type = ''BID''\<rparr>"

definition audusd_instrument :: Instrument where
  "audusd_instrument =
     \<lparr>inst_symbol = audusd, tick_size = 1 / 100000, tick_precision = 5,
      quote_currency = ''USD''\<rparr>"

definition audusd_instrument_updated :: Instrument where
  "audusd_instrument_updated =
     \<lparr>inst_symbol = audusd, tick_size = 1 / 10000, tick_precision = 4,
      quote_currency = ''USD''\<rparr>"

definition gbpusd_instrument :: Instrument where
  "gbpusd_instrument =
     \<lparr>inst_symbol = gbpusd, tick_size = 1 / 100000, tick_precision = 5,
      quote_currency = ''USD''\<rparr>"

text \<open>
  A started strategy whose indicators have warmed up: the fast EMA above the slow one, an
  ATR of 5 and a stop-loss multiple of 2.
\<close>

definition warm_strategy :: Strategy where
  "warm_strategy =
     \<lparr>symbol = audusd,
      bar_type = (audusd, minute_bars),
      order_id_tag = ''AUDUSD'',
      bar_capacity = 40,
      risk_bp = 10,
      entry_buffer = 1 / 100000,
      SL_buffer = 1 / 10000,
      SL_atr_multiple = 2,
      instrument = Some audusd_instrument,
      position_sizer = Some audusd_instrument,
      spread_analyzer = Some 5,
      liquidity = None,
      fast_ema = \<lparr>ind_period = 10, ind_value = 101, ind_initialized = True\<rparr>,
      slow_ema = \<lparr>ind_period = 20, ind_value = 100, ind_initialized = True\<rparr>,
      atr = \<lparr>ind_period = 20, ind_value = 5, ind_initialized = True\<rparr>\<rparr>"

text \<open>The same strategy with the fast EMA below the slow one.\<close>

definition warm_strategy_down :: Strategy where
  "warm_strategy_down =
     warm_strategy\<lparr>fast_ema := \<lparr>ind_period = 10, ind_value = 99, ind_initialized = True\<rparr>\<rparr>"

text \<open>The same strategy before its ATR has warmed up.\<close>

definition cold_strategy :: Strategy where
  "cold_strategy =
     warm_strategy\<lparr>atr := \<lparr>ind_period = 20, ind_value = 5, ind_initialized = False\<rparr>\<rparr>"

text \<open>A flat market snapshot: one tick at 99/100, no order, no position.\<close>

definition flat_market :: Framework where
  "flat_market =
     \<lparr>ticks = (\<lambda>sy. if sy = audusd then [\<lparr>tick_bid = 99, tick_ask = 100\<rparr>] else []),
      orders = [],
      positions = [],
      order_positions = [],
      average_spread = 1,
      free_equity = 1000000,
      exchange_rates = (\<lambda>currency. 1),
      instruments = (\<lambda>sy. if sy = audusd then Some audusd_instrument else None),
      next_position_id = 1\<rparr>"

definition bar_98_102 :: Bar where
  "bar_98_102 = \<lparr>bar_open = 100, bar_high = 102, bar_low = 98, bar_close = 101\<rparr>"

definition bar_105_108 :: Bar where
  "bar_105_108 = \<lparr>bar_open = 106, bar_high = 108, bar_low = 105, bar_close = 107\<rparr>"

definition bar_103_106 :: Bar where
  "bar_103_106 = \<lparr>bar_open = 105, bar_high = 106, bar_low = 103, bar_close = 104\<rparr>"

text \<open>A long position 7 with its entry 1 filled and its two protective legs working.\<close>

definition long_stop :: Order where
  "long_stop =
     \<lparr>order_id = 2, order_side = SELL, order_quantity = 10000, order_price = Some 90,
      order_purpose = STOP_LOSS, order_state = WORKING\<rparr>"

definition long_target :: Order where
  "long_target =
     \<lparr>order_id = 3, order_side = SELL, order_quantity = 10000, order_price = Some 110,
      order_purpose = TAKE_PROFIT, order_state = WORKING\<rparr>"

definition long_entry :: Order where
  "long_entry =
     \<lparr>order_id = 1, order_side = BUY, order_quantity = 10000, order_price = None,
      order_purpose = ENTRY, order_state = FILLED\<rparr>"

definition long_market :: Framework where
  "long_market =
     flat_market\<lparr>orders := [long_entry, long_stop, long_target],
                 positions := [\<lparr>position_id = 7, is_open = True\<rparr>],
                 order_positions := [(1, 7), (2, 7), (3, 7)]\<rparr>"

text \<open>The stop of a short position.\<close>

definition short_stop :: Order where
  "short_stop =
     \<lparr>order_id = 5, order_side = BUY, order_quantity = 10000, order_price = Some 120,
      order_purpose = STOP_LOSS, order_state = WORKING\<rparr>"

text \<open>Sizers: one that always trades a batch, one that never has the equity.\<close>

definition batch_sizer :: Sizer where
  "batch_sizer inst request = 10000"

definition zero_sizer :: Sizer where
  "zero_sizer inst request = 0"

text \<open>The same market when the position has been closed.\<close>

definition closed_market :: Framework where
  "closed_market = long_market\<lparr>positions := [\<lparr>position_id = 7, is_open = False\<rparr>]\<rparr>"

text \<open>The flat market before any tick has arrived.\<close>

definition tickless_market :: Framework where
  "tickless_market = flat_market\<lparr>ticks := (\<lambda>sy. [])\<rparr>"

subsection \<open>Auxiliary notions\<close>

text \<open>
  The request both branches make of the position sizer (lines 134 to 143 and 161 to 170),
  for an entry price and a stop-loss price.
\<close>

definition entry_request :: "Strategy \<Rightarrow> Framework \<Rightarrow> Instrument \<Rightarrow> real \<Rightarrow> real \<Rightarrow> SizingRequest" where
  "entry_request s fw inst price_entry price_stop_loss =
     \<lparr>sz_equity = free_equity fw,
      sz_exchange_rate = get_exchange_rate fw (quote_currency inst),
      sz_risk_bp = risk_bp s,
      sz_price_entry = price_entry,
      sz_price_stop_loss = price_stop_loss,
      sz_commission_rate_bp = 15 / 100,
      sz_hard_limit = 20000000,
      sz_units = 1,
      sz_unit_batch_size = 10000\<rparr>"

text \<open>
  The tracked stop: the table holds a working stop-loss order of the given identifier and
  side, at the given price.
\<close>

definition tracked :: "nat \<Rightarrow> OrderSide \<Rightarrow> Order list \<Rightarrow> real \<Rightarrow> bool" where
  "tracked oid side table current \<longleftrightarrow>
     (\<exists>ord \<in> set table. order_id ord = oid \<and> order_side ord = side \<and>
        order_purpose ord = STOP_LOSS \<and> order_state ord = WORKING \<and>
        order_price ord = Some current)"

section \<open>Properties of the handlers\<close>

subsection \<open>The commands of \<^verbatim>\<open>on_bar\<close>\<close>

lemma entry_logic_actions:
  "a \<in> set (fst (entry_logic calculate s fw bar)) \<Longrightarrow>
     (\<exists>side. a = LogInfo (Insufficient_Equity side)) \<or>
     (\<exists>ao. a = SubmitAtomicOrder ao (next_position_id fw))"
  by (auto simp: entry_logic_def buy_logic_def sell_logic_def Let_def
           split: if_splits sum.splits option.splits prod.splits)

lemma entry_logic_guard:
  "SubmitAtomicOrder ao pid \<in> set (fst (entry_logic calculate s fw bar)) \<Longrightarrow>
     orders_working fw = [] \<and> is_flat fw"
  by (auto simp: entry_logic_def split: if_splits)

lemma entry_logic_at_most_one:
  "length (filter is_submission (fst (entry_logic calculate s fw bar))) \<le> 1"
  by (auto simp: entry_logic_def buy_logic_def sell_logic_def Let_def
           split: if_splits sum.splits option.splits prod.splits)

lemma entry_logic_blocked:
  "\<not> (orders_working fw = [] \<and> is_flat fw) \<Longrightarrow> entry_logic calculate s fw bar = ([], None)"
  by (auto simp: entry_logic_def)

lemma entry_logic_errors:
  "has_ticks fw (symbol s) \<Longrightarrow> snd (entry_logic calculate s fw bar) \<noteq> Some IndexError"
  by (auto simp: entry_logic_def buy_logic_def sell_logic_def has_ticks_def tick_def Let_def
           split: option.splits)

lemma trailing_stop_order_actions:
  "a \<in> set (fst (trailing_stop_order s fw bar wo)) \<Longrightarrow>
     \<exists>p. a = ModifyOrder wo (order_quantity wo) p \<and> order_purpose wo = STOP_LOSS \<and>
       (if is_sell wo
        then p = bar_low bar - ind_value (atr s) * SL_atr_multiple s \<and>
             (\<exists>current. order_price wo = Some current \<and> current < p)
        else p = bar_high bar + ind_value (atr s) * SL_atr_multiple s + average_spread fw \<and>
             (\<exists>current. order_price wo = Some current \<and> p < current))"
  by (auto simp: trailing_stop_order_def Let_def split: if_splits option.splits)

lemma trailing_stop_logic_actions:
  "a \<in> set (fst (trailing_stop_logic s fw bar ws)) \<Longrightarrow>
     \<exists>wo \<in> set ws. a \<in> set (fst (trailing_stop_order s fw bar wo))"
proof (induction ws)
  case Nil
  then show ?case by simp
next
  case (Cons wo ws)
  then show ?case
    by (cases "trailing_stop_order s fw bar wo"; cases "trailing_stop_logic s fw bar ws")
       (auto split: option.splits)
qed

lemma trailing_stop_logic_no_submission:
  "filter is_submission (fst (trailing_stop_logic s fw bar ws)) = []"
  using trailing_stop_logic_actions [of _ s fw bar ws] trailing_stop_order_actions [of _ s fw bar]
  by (fastforce simp: filter_empty_conv)

lemma trailing_stop_logic_errors:
  "snd (trailing_stop_logic s fw bar ws) \<noteq> Some IndexError"
proof (induction ws)
  case Nil
  then show ?case by simp
next
  case (Cons wo ws)
  have "snd (trailing_stop_order s fw bar wo) \<noteq> Some IndexError"
    by (simp add: trailing_stop_order_def Let_def split: option.splits)
  with Cons show ?case
    by (cases "trailing_stop_order s fw bar wo"; cases "trailing_stop_logic s fw bar ws")
       (auto split: option.splits)
qed

lemma on_bar_actions:
  "a \<in> set (fst (on_bar calculate s fw bt bar)) \<Longrightarrow>
     a = LogInfo (Received_Bar bt bar) \<or>
     (indicators_initialized s \<and> has_ticks fw (symbol s) \<and>
      (a \<in> set (fst (entry_logic calculate
                       (s\<lparr>liquidity := Some (average_spread fw, ind_value (atr s))\<rparr>) fw bar)) \<or>
       a \<in> set (fst (trailing_stop_logic
                       (s\<lparr>liquidity := Some (average_spread fw, ind_value (atr s))\<rparr>) fw bar
                       (orders_working fw)))))"
  by (auto simp: on_bar_def Let_def split: if_splits option.splits prod.splits)

lemma on_bar_modifications:
  assumes "ModifyOrder target q p \<in> set (fst (on_bar calculate s fw bt bar))"
  shows "target \<in> set (orders_working fw) \<and> order_purpose target = STOP_LOSS \<and>
         q = order_quantity target \<and>
         (if is_sell target
          then p = bar_low bar - ind_value (atr s) * SL_atr_multiple s \<and>
               (\<exists>current. order_price target = Some current \<and> current < p)
          else p = bar_high bar + ind_value (atr s) * SL_atr_multiple s + average_spread fw \<and>
               (\<exists>current. order_price target = Some current \<and> p < current))"
proof -
  let ?s = "s\<lparr>liquidity := Some (average_spread fw, ind_value (atr s))\<rparr>"
  from on_bar_actions [OF assms] entry_logic_actions [of "ModifyOrder target q p" calculate ?s fw bar]
  have "ModifyOrder target q p \<in> set (fst (trailing_stop_logic ?s fw bar (orders_working fw)))"
    by auto
  then obtain wo where wo: "wo \<in> set (orders_working fw)"
    "ModifyOrder target q p \<in> set (fst (trailing_stop_order ?s fw bar wo))"
    using trailing_stop_logic_actions by blast
  from trailing_stop_order_actions [OF wo(2)] wo(1) show ?thesis
    by auto
qed

lemma on_bar_submissions:
  "filter is_submission (fst (on_bar calculate s fw bt bar)) =
     (if indicators_initialized s \<and> has_ticks fw (symbol s) \<and> spread_analyzer s \<noteq> None
      then filter is_submission
             (fst (entry_logic calculate
                     (s\<lparr>liquidity := Some (average_spread fw, ind_value (atr s))\<rparr>) fw bar))
      else [])"
proof -
  let ?s = "s\<lparr>liquidity := Some (average_spread fw, ind_value (atr s))\<rparr>"
  obtain entered e1 where e: "entry_logic calculate ?s fw bar = (entered, e1)"
    by (cases "entry_logic calculate ?s fw bar") auto
  obtain trailed e2 where t: "trailing_stop_logic ?s fw bar (orders_working fw) = (trailed, e2)"
    by (cases "trailing_stop_logic ?s fw bar (orders_working fw)") auto
  have "filter is_submission trailed = []"
    using trailing_stop_logic_no_submission [of ?s fw bar "orders_working fw"] t by simp
  then show ?thesis
    using e t by (auto simp: on_bar_def Let_def split: option.splits)
qed

subsection \<open>Modifications and the order table\<close>

lemma find_by_id:
  "distinct (map order_id table) \<Longrightarrow> ord \<in> set table \<Longrightarrow>
     find (\<lambda>x. order_id x = order_id ord) table = Some ord"
  by (induction table) (auto simp: image_iff)

lemma modify_order_ids: "map order_id (modify_order target q p table) = map order_id table"
  by (simp add: modify_order_def comp_def)

lemma apply_modifications_ids:
  "map order_id (apply_modifications acts table) = map order_id table"
  by (induction acts table rule: apply_modifications.induct) (simp_all add: modify_order_ids)

lemma tracked_modify_same:
  assumes "tracked oid side table current" and "order_id target = oid"
  shows "tracked oid side (modify_order target q p table) p"
proof -
  from assms(1) obtain ord where o: "ord \<in> set table" "order_id ord = oid"
    "order_side ord = side" "order_purpose ord = STOP_LOSS" "order_state ord = WORKING"
    unfolding tracked_def by blast
  let ?ord' = "ord\<lparr>order_quantity := q, order_price := Some p\<rparr>"
  have "?ord' \<in> set (modify_order target q p table)"
    unfolding modify_order_def using o assms(2) by (auto simp: image_iff intro!: bexI [of _ ord])
  then show ?thesis
    unfolding tracked_def using o by (intro bexI [of _ ?ord']) simp_all
qed

lemma tracked_modify_other:
  assumes "tracked oid side table current" and "order_id target \<noteq> oid"
  shows "tracked oid side (modify_order target q p table) current"
proof -
  from assms(1) obtain ord where o: "ord \<in> set table" "order_id ord = oid"
    "order_side ord = side" "order_purpose ord = STOP_LOSS" "order_state ord = WORKING"
    "order_price ord = Some current"
    unfolding tracked_def by blast
  have "ord \<in> set (modify_order target q p table)"
    unfolding modify_order_def using o assms(2) by (auto simp: image_iff intro!: bexI [of _ ord])
  then show ?thesis
    unfolding tracked_def using o by (intro bexI [of _ ord]) simp_all
qed

lemma tracked_apply:
  "tracked oid side table current \<Longrightarrow> Q current \<Longrightarrow> distinct (map order_id table) \<Longrightarrow>
   (\<And>target q p. ModifyOrder target q p \<in> set acts \<Longrightarrow> order_id target = oid \<Longrightarrow> Q p) \<Longrightarrow>
     \<exists>current'. tracked oid side (apply_modifications acts table) current' \<and> Q current'"
proof (induction acts table arbitrary: current rule: apply_modifications.induct)
  case (2 target q p rest table)
  have d: "distinct (map order_id (modify_order target q p table))"
    using "2.prems"(3) by (simp add: modify_order_ids)
  show ?case
  proof (cases "order_id target = oid")
    case True
    have "tracked oid side (modify_order target q p table) p"
      using tracked_modify_same [OF "2.prems"(1) True] .
    moreover have "Q p" using "2.prems"(4) [of target q p] True by simp
    ultimately show ?thesis
      using "2.IH" [of p] d "2.prems"(4) by auto
  next
    case False
    have "tracked oid side (modify_order target q p table) current"
      using tracked_modify_other [OF "2.prems"(1) False] .
    then show ?thesis
      using "2.IH" [of current] d "2.prems"(2,4) by auto
  qed
qed auto

lemma tracked_stop_price:
  "tracked oid side table current \<Longrightarrow> distinct (map order_id table) \<Longrightarrow>
     stop_price oid table = Some current"
  unfolding tracked_def stop_price_def using find_by_id by fastforce

lemma bar_step:
  assumes t: "tracked oid side table current" and d: "distinct (map order_id table)"
  shows "\<exists>current'. tracked oid side
            (apply_modifications (fst (on_bar calculate s (fw\<lparr>orders := table\<rparr>) bt bar)) table)
            current' \<and>
          (if side = SELL then current \<le> current' else current' \<le> current)"
proof (rule tracked_apply [OF t _ d])
  show "if side = SELL then current \<le> current else current \<le> current" by simp
next
  fix target q p
  assume m: "ModifyOrder target q p \<in> set (fst (on_bar calculate s (fw\<lparr>orders := table\<rparr>) bt bar))"
    and i: "order_id target = oid"
  from t obtain ord where o: "ord \<in> set table" "order_id ord = oid" "order_side ord = side"
    "order_price ord = Some current"
    unfolding tracked_def by blast
  from on_bar_modifications [OF m] have tg: "target \<in> set table"
    and pr: "if is_sell target
          then \<exists>c. order_price target = Some c \<and> c < p
          else \<exists>c. order_price target = Some c \<and> p < c"
    by (auto simp: orders_working_def split: if_splits)
  have "target = ord"
    using d tg o(1,2) i by (metis distinct_map inj_onD)
  with pr o show "if side = SELL then current \<le> p else p \<le> current"
    by (cases side) (auto simp: is_sell_def split: if_splits)
qed

lemma run_bars_tracked:
  assumes "tracked oid side table current" and "distinct (map order_id table)"
  shows "\<exists>ps. map (stop_price oid) (run_bars calculate table steps) = map Some ps \<and>
           sorted_wrt (\<lambda>a b. if side = SELL then a \<le> b else b \<le> a) ps \<and>
           (\<forall>x \<in> set ps. if side = SELL then current \<le> x else x \<le> current)"
  using assms
proof (induction steps arbitrary: table current)
  case Nil
  then show ?case
    using tracked_stop_price [OF Nil(1) Nil(2)]
    by (intro exI [of _ "[current]"]) simp
next
  case (Cons step steps)
  obtain s fw bt bar where step: "step = (s, fw, bt, bar)" by (cases step) auto
  let ?table = "apply_modifications (fst (on_bar calculate s (fw\<lparr>orders := table\<rparr>) bt bar)) table"
  from bar_step [OF Cons.prems, of calculate s fw bt bar]
  obtain current' where c: "tracked oid side ?table current'"
    "if side = SELL then current \<le> current' else current' \<le> current"
    by blast
  have d: "distinct (map order_id ?table)"
    using Cons.prems(2) by (simp add: apply_modifications_ids)
  from Cons.IH [OF c(1) d] obtain ps where ps:
    "map (stop_price oid) (run_bars calculate ?table steps) = map Some ps"
    "sorted_wrt (\<lambda>a b. if side = SELL then a \<le> b else b \<le> a) ps"
    "\<forall>x \<in> set ps. if side = SELL then current' \<le> x else x \<le> current'"
    by blast
  have "map (stop_price oid) (run_bars calculate table (step # steps)) = map Some (current # ps)"
    using ps(1) tracked_stop_price [OF Cons.prems] step by simp
  moreover have "sorted_wrt (\<lambda>a b. if side = SELL then a \<le> b else b \<le> a) (current # ps)"
    using ps(2,3) c(2) by (cases side) auto
  moreover have "\<forall>x \<in> set (current # ps). if side = SELL then current \<le> x else x \<le> current"
    using ps(3) c(2) by (cases side) auto
  ultimately show ?case by blast
qed

subsection \<open>Starting the strategy\<close>

text \<open>
  When the data client files each instrument under the instrument's own symbol, a start
  that succeeds leaves the instrument cached under the strategy's symbol.
\<close>

lemma on_start_caches:
  assumes "\<forall>inst. instruments fw (symbol s) = Some inst \<longrightarrow> inst_symbol inst = symbol s"
    and "on_start s fw = (acts, s', None)"
  shows "instrument_cached s'"
  using assms
  by (auto simp: on_start_def get_instrument_def instrument_cached_def split: option.splits)

text \<open>No other handler touches the cached instrument or the strategy's symbol.\<close>

lemma on_bar_keeps_cache:
  "instrument_cached s \<Longrightarrow> instrument_cached (fst (snd (on_bar calculate s fw bt bar)))"
  by (auto simp: on_bar_def instrument_cached_def Let_def split: option.splits prod.splits)

lemma on_event_keeps_cache:
  "instrument_cached s \<Longrightarrow> instrument_cached (fst (snd (on_event s fw event)))"
  by (auto simp: on_event_def instrument_cached_def split: Event.splits option.splits)

subsection \<open>The trailing stop requests every tightening\<close>

text \<open>
  The converse of the guard: when the loop ends without an exception, every working
  stop-loss order whose candidate is strictly better than its price gets its modification.
\<close>

lemma trailing_stop_logic_requests:
  assumes "snd (trailing_stop_logic s fw bar ws) = None" and "wo \<in> set ws"
    and "order_purpose wo = STOP_LOSS" and "order_price wo = Some current"
    and "candidate =
           (if is_sell wo
            then bar_low bar - ind_value (atr s) * SL_atr_multiple s
            else bar_high bar + ind_value (atr s) * SL_atr_multiple s + average_spread fw)"
    and "if is_sell wo then current < candidate else candidate < current"
  shows "ModifyOrder wo (order_quantity wo) candidate \<in> set (fst (trailing_stop_logic s fw bar ws))"
  using assms(1,2)
proof (induction ws)
  case Nil
  then show ?case by simp
next
  case (Cons w ws)
  obtain requested e where w: "trailing_stop_order s fw bar w = (requested, e)"
    by (cases "trailing_stop_order s fw bar w") auto
  obtain later raised where l: "trailing_stop_logic s fw bar ws = (later, raised)"
    by (cases "trailing_stop_logic s fw bar ws") auto
  from Cons.prems(1) w l have e: "e = None" and r: "raised = None"
    by (auto split: option.splits)
  show ?case
  proof (cases "wo = w")
    case True
    have "ModifyOrder wo (order_quantity wo) candidate \<in> set requested"
      using w True assms(3-6)
      by (cases "order_side wo")
         (auto simp: trailing_stop_order_def is_sell_def is_buy_def Let_def split: if_splits)
    then show ?thesis using w l e by simp
  next
    case False
    with Cons.prems(2) have "wo \<in> set ws" by simp
    with Cons.IH l r have "ModifyOrder wo (order_quantity wo) candidate \<in> set later"
      by simp
    then show ?thesis using w l e by simp
  qed
qed

section \<open>The claims\<close>

subsection \<open>C3: warm-up\<close>

text \<open>
  Claim C3. For every bar, when not all of the registered indicators (fast EMA, slow EMA,
  ATR) are initialized, \<open>on_bar\<close> logs the bar and returns: the strategy object is
  unchanged, nothing is raised, and no atomic order is submitted, no modification requested
  and no position flattened.
\<close>

theorem warm_up_precondition:
  "\<not> indicators_initialized s \<Longrightarrow>
     on_bar calculate s fw bt bar = ([LogInfo (Received_Bar bt bar)], s, None) \<and>
     filter is_trading_action (fst (on_bar calculate s fw bt bar)) = []"
  by (simp add: on_bar_def Let_def)

theorem warm_up_precondition_witness:
  "\<not> indicators_initialized cold_strategy \<and>
   on_bar batch_sizer cold_strategy flat_market (audusd, minute_bars) bar_98_102 =
     ([LogInfo (Received_Bar (audusd, minute_bars) bar_98_102)], cold_strategy, None) \<and>
   filter is_trading_action
     (fst (on_bar batch_sizer cold_strategy flat_market (audusd, minute_bars) bar_98_102)) = []"
  using warm_up_precondition
    [of cold_strategy batch_sizer flat_market "(audusd, minute_bars)" bar_98_102]
  by (simp add: indicators_initialized_def cold_strategy_def warm_strategy_def)

subsection \<open>C9: ticks\<close>

text \<open>
  Claim C9. Beyond the warm-up, \<open>on_bar\<close> needs a recorded tick for the symbol: without
  one it logs the bar and returns. The handler therefore never raises the error of reading
  a tick that is not there, and whenever it issues a trading command a tick is recorded and
  the tick at index 0 is the head of the history.
\<close>

theorem tick_availability_guard:
  "(\<not> has_ticks fw (symbol s) \<longrightarrow>
      on_bar calculate s fw bt bar = ([LogInfo (Received_Bar bt bar)], s, None)) \<and>
   snd (snd (on_bar calculate s fw bt bar)) \<noteq> Some IndexError \<and>
   (\<forall>a \<in> set (fst (on_bar calculate s fw bt bar)). is_trading_action a \<longrightarrow>
      has_ticks fw (symbol s) \<and> tick fw (symbol s) 0 = Inr (hd (ticks fw (symbol s))))"
proof (intro conjI impI ballI)
  assume "\<not> has_ticks fw (symbol s)"
  then show "on_bar calculate s fw bt bar = ([LogInfo (Received_Bar bt bar)], s, None)"
    by (simp add: on_bar_def Let_def)
next
  let ?s = "s\<lparr>liquidity := Some (average_spread fw, ind_value (atr s))\<rparr>"
  obtain entered e1 where e: "entry_logic calculate ?s fw bar = (entered, e1)"
    by (cases "entry_logic calculate ?s fw bar") auto
  obtain trailed e2 where t: "trailing_stop_logic ?s fw bar (orders_working fw) = (trailed, e2)"
    by (cases "trailing_stop_logic ?s fw bar (orders_working fw)") auto
  have "e2 \<noteq> Some IndexError"
    using trailing_stop_logic_errors [of ?s fw bar "orders_working fw"] t by simp
  moreover have "has_ticks fw (symbol s) \<Longrightarrow> e1 \<noteq> Some IndexError"
    using entry_logic_errors [of fw ?s calculate bar] e by simp
  ultimately show "snd (snd (on_bar calculate s fw bt bar)) \<noteq> Some IndexError"
    using e t by (auto simp: on_bar_def Let_def split: option.splits)
next
  fix a
  assume a: "a \<in> set (fst (on_bar calculate s fw bt bar))" "is_trading_action a"
  from on_bar_actions [OF a(1)] a(2) have h: "has_ticks fw (symbol s)"
    by auto
  then show "has_ticks fw (symbol s)"
    and "tick fw (symbol s) 0 = Inr (hd (ticks fw (symbol s)))"
    by (simp_all add: has_ticks_def tick_def hd_conv_nth)
qed

theorem tick_availability_guard_witness:
  "\<not> has_ticks tickless_market (symbol warm_strategy) \<and>
   on_bar batch_sizer warm_strategy tickless_market (audusd, minute_bars) bar_98_102 =
     ([LogInfo (Received_Bar (audusd, minute_bars) bar_98_102)], warm_strategy, None) \<and>
   ModifyOrder long_stop 10000 95 \<in>
     set (fst (on_bar batch_sizer warm_strategy long_market (audusd, minute_bars) bar_105_108)) \<and>
   is_trading_action (ModifyOrder long_stop 10000 95) \<and>
   has_ticks long_market (symbol warm_strategy) \<and>
   tick long_market (symbol warm_strategy) 0 = Inr \<lparr>tick_bid = 99, tick_ask = 100\<rparr>"
  using tick_availability_guard
    [of tickless_market warm_strategy batch_sizer "(audusd, minute_bars)" bar_98_102]
    tick_availability_guard
    [of long_market warm_strategy batch_sizer "(audusd, minute_bars)" bar_105_108]
  by (simp add: on_bar_def entry_logic_def trailing_stop_order_def indicators_initialized_def
        has_ticks_def tick_def orders_working_def is_flat_def is_sell_def is_buy_def Let_def
        warm_strategy_def tickless_market_def long_market_def flat_market_def long_stop_def
        long_target_def long_entry_def bar_105_108_def)

subsection \<open>C2: at most one entry\<close>

text \<open>
  Claim C2. At every bar, \<open>on_bar\<close> submits an atomic order only when the indicators
  are initialized, no order is working and the strategy is flat; while an order is working
  or a position is open it submits none; and it never submits more than one.
\<close>

theorem at_most_one_open_action:
  "(\<forall>atomic_order pid.
      SubmitAtomicOrder atomic_order pid \<in> set (fst (on_bar calculate s fw bt bar)) \<longrightarrow>
        indicators_initialized s \<and> orders_working fw = [] \<and> is_flat fw) \<and>
   (orders_working fw \<noteq> [] \<or> (\<exists>position \<in> set (positions fw). is_open position) \<longrightarrow>
      filter is_submission (fst (on_bar calculate s fw bt bar)) = []) \<and>
   length (filter is_submission (fst (on_bar calculate s fw bt bar))) \<le> 1"
proof (intro conjI allI impI)
  fix atomic_order pid
  assume m: "SubmitAtomicOrder atomic_order pid \<in> set (fst (on_bar calculate s fw bt bar))"
  let ?s = "s\<lparr>liquidity := Some (average_spread fw, ind_value (atr s))\<rparr>"
  from on_bar_actions [OF m]
  have i: "indicators_initialized s"
    and "SubmitAtomicOrder atomic_order pid \<in> set (fst (entry_logic calculate ?s fw bar)) \<or>
         SubmitAtomicOrder atomic_order pid \<in>
           set (fst (trailing_stop_logic ?s fw bar (orders_working fw)))"
    by auto
  moreover have "SubmitAtomicOrder atomic_order pid \<notin>
           set (fst (trailing_stop_logic ?s fw bar (orders_working fw)))"
    using trailing_stop_logic_no_submission [of ?s fw bar "orders_working fw"]
    by (auto simp: filter_empty_conv)
  ultimately have "SubmitAtomicOrder atomic_order pid \<in> set (fst (entry_logic calculate ?s fw bar))"
    by blast
  from entry_logic_guard [OF this] i
  show "indicators_initialized s" and "orders_working fw = []" and "is_flat fw"
    by simp_all
next
  assume "orders_working fw \<noteq> [] \<or> (\<exists>position \<in> set (positions fw). is_open position)"
  then have "\<not> (orders_working fw = [] \<and> is_flat fw)"
    by (auto simp: is_flat_def list_all_iff)
  then have "entry_logic calculate s' fw bar = ([], None)" for s'
    by (rule entry_logic_blocked)
  then show "filter is_submission (fst (on_bar calculate s fw bt bar)) = []"
    by (simp add: on_bar_submissions)
next
  show "length (filter is_submission (fst (on_bar calculate s fw bt bar))) \<le> 1"
    using entry_logic_at_most_one by (simp add: on_bar_submissions)
qed

theorem at_most_one_open_action_witness:
  "SubmitAtomicOrder
     \<lparr>ao_symbol = audusd, ao_side = BUY, ao_quantity = 10000, ao_price_stop_loss = 88,
      ao_price_take_profit = 112\<rparr> 1 \<in>
     set (fst (on_bar batch_sizer warm_strategy flat_market (audusd, minute_bars) bar_98_102)) \<and>
   indicators_initialized warm_strategy \<and> orders_working flat_market = [] \<and>
   is_flat flat_market \<and>
   orders_working long_market \<noteq> [] \<and>
   filter is_submission
     (fst (on_bar batch_sizer warm_strategy long_market (audusd, minute_bars) bar_98_102)) = []"
  using at_most_one_open_action
    [of batch_sizer warm_strategy flat_market "(audusd, minute_bars)" bar_98_102]
    at_most_one_open_action
    [of batch_sizer warm_strategy long_market "(audusd, minute_bars)" bar_98_102]
  by (simp add: on_bar_def entry_logic_def buy_logic_def indicators_initialized_def
        has_ticks_def tick_def orders_working_def is_flat_def get_exchange_rate_def Let_def
        warm_strategy_def flat_market_def long_market_def long_stop_def long_target_def
        long_entry_def bar_98_102_def batch_sizer_def audusd_instrument_def)

subsection \<open>C1: the trailing stop\<close>

text \<open>
  Claim C1. At every bar, each modification \<open>on_bar\<close> requests is for a working order of
  purpose \<open>STOP_LOSS\<close>, keeps its quantity, and moves its price to the candidate of its
  side: for a sell-side order the bar's low less the ATR times the multiple, requested only
  when that is strictly above the order's price; for a buy-side order the bar's high plus
  the ATR times the multiple plus the average spread, requested only when that is strictly
  below the order's price. Hence over any sequence of bars, with the modifications applied
  to the order table, the prices of a working sell-side stop never decrease and those of a
  working buy-side stop never increase.
\<close>

theorem trailing_stop_monotonic_tightening:
  "(\<forall>target q p. ModifyOrder target q p \<in> set (fst (on_bar calculate s fw bt bar)) \<longrightarrow>
      target \<in> set (orders_working fw) \<and> order_purpose target = STOP_LOSS \<and>
      q = order_quantity target \<and>
      (if is_sell target
       then p = bar_low bar - ind_value (atr s) * SL_atr_multiple s \<and>
            (\<exists>current. order_price target = Some current \<and> current < p)
       else p = bar_high bar + ind_value (atr s) * SL_atr_multiple s + average_spread fw \<and>
            (\<exists>current. order_price target = Some current \<and> p < current))) \<and>
   (distinct (map order_id table) \<and> ord \<in> set table \<and> order_purpose ord = STOP_LOSS \<and>
    order_state ord = WORKING \<and> order_price ord = Some current \<longrightarrow>
      (\<exists>ps. map (stop_price (order_id ord)) (run_bars calculate table steps) = map Some ps \<and>
            (if is_sell ord then sorted ps else sorted (rev ps))))"
proof (intro conjI impI)
  show "\<forall>target q p. ModifyOrder target q p \<in> set (fst (on_bar calculate s fw bt bar)) \<longrightarrow>
      target \<in> set (orders_working fw) \<and> order_purpose target = STOP_LOSS \<and>
      q = order_quantity target \<and>
      (if is_sell target
       then p = bar_low bar - ind_value (atr s) * SL_atr_multiple s \<and>
            (\<exists>current. order_price target = Some current \<and> current < p)
       else p = bar_high bar + ind_value (atr s) * SL_atr_multiple s + average_spread fw \<and>
            (\<exists>current. order_price target = Some current \<and> p < current))"
    using on_bar_modifications by blast
next
  assume a: "distinct (map order_id table) \<and> ord \<in> set table \<and> order_purpose ord = STOP_LOSS \<and>
    order_state ord = WORKING \<and> order_price ord = Some current"
  then have t: "tracked (order_id ord) (order_side ord) table current"
    unfolding tracked_def by blast
  from a have d: "distinct (map order_id table)" by simp
  from run_bars_tracked [OF t d, of calculate steps]
  obtain ps where ps: "map (stop_price (order_id ord)) (run_bars calculate table steps) = map Some ps"
    "sorted_wrt (\<lambda>a b. if order_side ord = SELL then a \<le> b else b \<le> a) ps"
    by blast
  have "if is_sell ord then sorted ps else sorted (rev ps)"
  proof (cases "order_side ord")
    case SELL
    with ps(2) show ?thesis by (simp add: is_sell_def)
  next
    case BUY
    with ps(2) have "sorted_wrt (\<lambda>a b. b \<le> a) ps" by simp
    then have "sorted (rev ps)" by (simp add: sorted_wrt_rev)
    with BUY show ?thesis by (simp add: is_sell_def)
  qed
  with ps(1)
  show "\<exists>ps. map (stop_price (order_id ord)) (run_bars calculate table steps) = map Some ps \<and>
            (if is_sell ord then sorted ps else sorted (rev ps))"
    by blast
qed

theorem trailing_stop_monotonic_tightening_witness:
  "ModifyOrder long_stop 10000 95 \<in>
     set (fst (on_bar batch_sizer warm_strategy long_market (audusd, minute_bars) bar_105_108)) \<and>
   long_stop \<in> set (orders_working long_market) \<and> order_purpose long_stop = STOP_LOSS \<and>
   is_sell long_stop \<and> order_price long_stop = Some 90 \<and>
   distinct (map order_id [long_stop, short_stop]) \<and>
   long_stop \<in> set [long_stop, short_stop] \<and> order_state long_stop = WORKING \<and>
   (\<exists>ps. map (stop_price (order_id long_stop))
            (run_bars batch_sizer [long_stop, short_stop]
               [(warm_strategy, flat_market, (audusd, minute_bars), bar_105_108),
                (warm_strategy, flat_market, (audusd, minute_bars), bar_103_106)]) =
          map Some ps \<and> sorted ps) \<and>
   short_stop \<in> set [long_stop, short_stop] \<and> order_purpose short_stop = STOP_LOSS \<and>
   order_state short_stop = WORKING \<and> order_price short_stop = Some 120 \<and>
   \<not> is_sell short_stop \<and>
   (\<exists>ps. map (stop_price (order_id short_stop))
            (run_bars batch_sizer [long_stop, short_stop]
               [(warm_strategy, flat_market, (audusd, minute_bars), bar_105_108),
                (warm_strategy, flat_market, (audusd, minute_bars), bar_103_106)]) =
          map Some ps \<and> sorted (rev ps))"
proof -
  have long: "ModifyOrder long_stop 10000 95 \<in>
     set (fst (on_bar batch_sizer warm_strategy long_market (audusd, minute_bars) bar_105_108))"
    by (simp add: on_bar_def entry_logic_def trailing_stop_order_def indicators_initialized_def
          has_ticks_def orders_working_def is_flat_def is_sell_def is_buy_def Let_def
          warm_strategy_def long_market_def flat_market_def long_stop_def long_target_def
          long_entry_def bar_105_108_def)
  have table: "distinct (map order_id [long_stop, short_stop])"
    "long_stop \<in> set [long_stop, short_stop]" "short_stop \<in> set [long_stop, short_stop]"
    "order_purpose long_stop = STOP_LOSS" "order_state long_stop = WORKING"
    "order_price long_stop = Some 90" "is_sell long_stop"
    "order_purpose short_stop = STOP_LOSS" "order_state short_stop = WORKING"
    "order_price short_stop = Some 120" "\<not> is_sell short_stop"
    by (simp_all add: long_stop_def short_stop_def is_sell_def)
  note bar = trailing_stop_monotonic_tightening
    [where calculate = batch_sizer and s = warm_strategy and fw = long_market
       and bt = "(audusd, minute_bars)" and bar = bar_105_108]
  note run = trailing_stop_monotonic_tightening
    [where table = "[long_stop, short_stop]" and calculate = batch_sizer
       and steps = "[(warm_strategy, flat_market, (audusd, minute_bars), bar_105_108),
                     (warm_strategy, flat_market, (audusd, minute_bars), bar_103_106)]"]
  from bar long have "long_stop \<in> set (orders_working long_market)"
    by blast
  moreover from run [where ord = long_stop and current = 90] table
  have "\<exists>ps. map (stop_price (order_id long_stop))
            (run_bars batch_sizer [long_stop, short_stop]
               [(warm_strategy, flat_market, (audusd, minute_bars), bar_105_108),
                (warm_strategy, flat_market, (audusd, minute_bars), bar_103_106)]) =
          map Some ps \<and> sorted ps"
    by simp
  moreover from run [where ord = short_stop and current = 120] table
  have "\<exists>ps. map (stop_price (order_id short_stop))
            (run_bars batch_sizer [long_stop, short_stop]
               [(warm_strategy, flat_market, (audusd, minute_bars), bar_105_108),
                (warm_strategy, flat_market, (audusd, minute_bars), bar_103_106)]) =
          map Some ps \<and> sorted (rev ps)"
    by simp
  ultimately show ?thesis
    using long table by simp
qed

text \<open>
  The run of the witness: candidates of 95 and then 93 leave the long stop at 95, and the
  short stop comes down from 120 to 119 and 117.
\<close>

lemma run_bars_example:
  "map (stop_price 2)
     (run_bars batch_sizer [long_stop, short_stop]
        [(warm_strategy, flat_market, bt, bar_105_108),
         (warm_strategy, flat_market, bt, bar_103_106)]) = [Some 90, Some 95, Some 95] \<and>
   map (stop_price 5)
     (run_bars batch_sizer [long_stop, short_stop]
        [(warm_strategy, flat_market, bt, bar_105_108),
         (warm_strategy, flat_market, bt, bar_103_106)]) = [Some 120, Some 119, Some 117]"
  by (simp add: on_bar_def entry_logic_def trailing_stop_order_def indicators_initialized_def
        has_ticks_def orders_working_def is_flat_def is_sell_def is_buy_def Let_def
        stop_price_def modify_order_def warm_strategy_def flat_market_def long_stop_def
        short_stop_def bar_105_108_def bar_103_106_def)

subsection \<open>C4 and C10: the rejection of an order\<close>

text \<open>
  Claim C4. On the rejection of an order, \<open>on_event\<close> looks up the position recorded for
  the rejected order's identifier: when there is one and it is open, the handler's own
  outcome holds the command to flatten that position, and nothing else; when there is none,
  or it is not open, the handler issues nothing. The strategy object is unchanged and
  nothing is raised.
\<close>

theorem flatten_on_rejection:
  "(\<forall>position. position_for_order fw oid = Some position \<and> is_open position \<longrightarrow>
      on_event s fw (OrderRejected oid) = ([FlattenPosition (position_id position)], s, None)) \<and>
   (position_for_order fw oid = None \<or>
    (\<exists>position. position_for_order fw oid = Some position \<and> \<not> is_open position) \<longrightarrow>
      on_event s fw (OrderRejected oid) = ([], s, None))"
  by (auto simp: on_event_def)

theorem flatten_on_rejection_witness:
  "position_for_order long_market 1 = Some \<lparr>position_id = 7, is_open = True\<rparr> \<and>
   on_event warm_strategy long_market (OrderRejected 1) =
     ([FlattenPosition 7], warm_strategy, None) \<and>
   position_for_order flat_market 1 = None \<and>
   on_event warm_strategy flat_market (OrderRejected 1) = ([], warm_strategy, None) \<and>
   position_for_order closed_market 1 = Some \<lparr>position_id = 7, is_open = False\<rparr> \<and>
   on_event warm_strategy closed_market (OrderRejected 1) = ([], warm_strategy, None)"
  using flatten_on_rejection [of long_market 1 warm_strategy]
    flatten_on_rejection [of flat_market 1 warm_strategy]
    flatten_on_rejection [of closed_market 1 warm_strategy]
  by (simp add: position_for_order_def long_market_def flat_market_def closed_market_def)

text \<open>
  Claim C10. The handler flattens on the rejection of any order that is recorded under an
  open position, whatever the order's purpose: the rejection of a protective stop-loss or
  take-profit leg, after the entry has filled, flattens the position, and the handler
  submits nothing in its place.
\<close>

theorem flatten_on_any_rejected_leg:
  assumes "ord \<in> set (orders fw)" and "order_id ord = oid" and "order_purpose ord = purpose"
    and "position_for_order fw oid = Some position" and "is_open position"
  shows "on_event s fw (OrderRejected oid) = ([FlattenPosition (position_id position)], s, None) \<and>
         filter is_submission (fst (on_event s fw (OrderRejected oid))) = []"
  using assms by (simp add: on_event_def)

theorem flatten_on_any_rejected_leg_witness:
  "long_stop \<in> set (orders long_market) \<and> order_id long_stop = 2 \<and>
   order_purpose long_stop = STOP_LOSS \<and>
   long_target \<in> set (orders long_market) \<and> order_id long_target = 3 \<and>
   order_purpose long_target = TAKE_PROFIT \<and>
   position_for_order long_market 2 = Some \<lparr>position_id = 7, is_open = True\<rparr> \<and>
   position_for_order long_market 3 = Some \<lparr>position_id = 7, is_open = True\<rparr> \<and>
   on_event warm_strategy long_market (OrderRejected 2) =
     ([FlattenPosition 7], warm_strategy, None) \<and>
   on_event warm_strategy long_market (OrderRejected 3) =
     ([FlattenPosition 7], warm_strategy, None)"
  using flatten_on_any_rejected_leg
      [of long_stop long_market 2 STOP_LOSS "\<lparr>position_id = 7, is_open = True\<rparr>" warm_strategy]
    flatten_on_any_rejected_leg
      [of long_target long_market 3 TAKE_PROFIT "\<lparr>position_id = 7, is_open = True\<rparr>"
        warm_strategy]
  by (simp add: position_for_order_def long_market_def flat_market_def long_stop_def
        long_target_def)

subsection \<open>C8: the cached instrument\<close>

text \<open>
  Claim C8. Once the strategy has started for its symbol, \<open>on_instrument\<close> logs the
  update and replaces the cached instrument by the received one exactly when the received
  instrument's symbol is the strategy's symbol; otherwise the strategy object is left as it
  is. Either way the instrument stays cached under the strategy's symbol, so the same holds
  at the next update.
\<close>

theorem instrument_cache_frame:
  assumes "instrument_cached s"
  shows "on_instrument s inst =
           ([LogInfo (Updated_Instrument inst)],
            (if inst_symbol inst = symbol s then s\<lparr>instrument := Some inst\<rparr> else s),
            None) \<and>
         instrument_cached (fst (snd (on_instrument s inst)))"
  using assms by (auto simp: on_instrument_def instrument_cached_def split: option.splits)

theorem instrument_cache_frame_witness:
  "instrument_cached warm_strategy \<and>
   on_instrument warm_strategy audusd_instrument_updated =
     ([LogInfo (Updated_Instrument audusd_instrument_updated)],
      warm_strategy\<lparr>instrument := Some audusd_instrument_updated\<rparr>, None) \<and>
   on_instrument warm_strategy gbpusd_instrument =
     ([LogInfo (Updated_Instrument gbpusd_instrument)], warm_strategy, None)"
  using instrument_cache_frame [of warm_strategy audusd_instrument_updated]
    instrument_cache_frame [of warm_strategy gbpusd_instrument]
  by (simp add: instrument_cached_def warm_strategy_def audusd_instrument_def
        audusd_instrument_updated_def gbpusd_instrument_def audusd_def gbpusd_def)

subsection \<open>C6: a size of zero\<close>

text \<open>
  Claim C6. When the entry logic runs (the strategy is started, warmed up, has a tick, no
  working order and no open position) and the position sizer returns a quantity that is not
  strictly positive, \<open>on_bar\<close> submits no atomic order: it logs the bar and the message
  that the equity is insufficient for the signal of that side, and returns without raising.
\<close>

theorem zero_size_abstain:
  assumes "indicators_initialized s" and "ticks fw (symbol s) = t # older"
    and "spread_analyzer s = Some precision" and "instrument s = Some inst"
    and "position_sizer s = Some sizer_inst"
    and "orders_working fw = []" and "is_flat fw"
    and "side = (if ind_value (fast_ema s) \<ge> ind_value (slow_ema s) then BUY else SELL)"
    and "price_entry = (if side = BUY then tick_ask t else tick_bid t)"
    and "price_stop_loss =
           (if side = BUY
            then bar_low bar - ind_value (atr s) * SL_atr_multiple s
            else bar_high bar + ind_value (atr s) * SL_atr_multiple s + average_spread fw)"
    and "calculate sizer_inst (entry_request s fw inst price_entry price_stop_loss) \<le> 0"
  shows "on_bar calculate s fw bt bar =
           ([LogInfo (Received_Bar bt bar), LogInfo (Insufficient_Equity side)],
            s\<lparr>liquidity := Some (average_spread fw, ind_value (atr s))\<rparr>,
            None)"
proof (cases "ind_value (slow_ema s) \<le> ind_value (fast_ema s)")
  case True
  with assms show ?thesis
    by (simp add: on_bar_def entry_logic_def buy_logic_def has_ticks_def tick_def
          entry_request_def Let_def)
next
  case False
  with assms show ?thesis
    by (simp add: on_bar_def entry_logic_def sell_logic_def has_ticks_def tick_def
          entry_request_def Let_def)
qed

theorem zero_size_abstain_witness:
  "indicators_initialized warm_strategy \<and>
   ticks flat_market (symbol warm_strategy) = [\<lparr>tick_bid = 99, tick_ask = 100\<rparr>] \<and>
   orders_working flat_market = [] \<and> is_flat flat_market \<and>
   zero_sizer audusd_instrument
     (entry_request warm_strategy flat_market audusd_instrument 100 88) \<le> 0 \<and>
   on_bar zero_sizer warm_strategy flat_market (audusd, minute_bars) bar_98_102 =
     ([LogInfo (Received_Bar (audusd, minute_bars) bar_98_102),
       LogInfo (Insufficient_Equity BUY)],
      warm_strategy\<lparr>liquidity := Some (1, 5)\<rparr>, None) \<and>
   on_bar zero_sizer warm_strategy_down flat_market (audusd, minute_bars) bar_98_102 =
     ([LogInfo (Received_Bar (audusd, minute_bars) bar_98_102),
       LogInfo (Insufficient_Equity SELL)],
      warm_strategy_down\<lparr>liquidity := Some (1, 5)\<rparr>, None)"
  using zero_size_abstain
      [where s = warm_strategy and fw = flat_market and t = "\<lparr>tick_bid = 99, tick_ask = 100\<rparr>"
         and older = "[]" and precision = 5 and inst = audusd_instrument
         and sizer_inst = audusd_instrument and side = BUY and price_entry = 100
         and price_stop_loss = 88 and bar = bar_98_102 and calculate = zero_sizer
         and bt = "(audusd, minute_bars)"]
    zero_size_abstain
      [where s = warm_strategy_down and fw = flat_market
         and t = "\<lparr>tick_bid = 99, tick_ask = 100\<rparr>"
         and older = "[]" and precision = 5 and inst = audusd_instrument
         and sizer_inst = audusd_instrument and side = SELL and price_entry = 99
         and price_stop_loss = 113 and bar = bar_98_102 and calculate = zero_sizer
         and bt = "(audusd, minute_bars)"]
  by (simp add: indicators_initialized_def orders_working_def is_flat_def zero_sizer_def
        warm_strategy_def warm_strategy_down_def flat_market_def bar_98_102_def)

subsection \<open>C5: the entry\<close>

text \<open>
  Claim C5, as the code has it. When the entry logic runs (the strategy is started, warmed
  up, has a tick, no working order and no open position) and the position sizer returns a
  strictly positive quantity, \<open>on_bar\<close> submits one atomic market order of that quantity.
  With the fast EMA at or above the slow EMA the order is a BUY: the entry price is the
  ask of the most recent tick, the stop-loss price the bar's low less the ATR times the
  multiple, the take-profit price the entry plus the distance from the stop to the entry.
  Otherwise it is a SELL: the entry price is the bid, the stop-loss price the bar's high
  plus the ATR times the multiple plus the average spread, the take-profit price the entry
  less the distance from the entry to the stop.
\<close>

theorem entry_scenario:
  assumes "indicators_initialized s" and "ticks fw (symbol s) = t # older"
    and "spread_analyzer s = Some precision" and "instrument s = Some inst"
    and "position_sizer s = Some sizer_inst"
    and "orders_working fw = []" and "is_flat fw"
    and "side = (if ind_value (fast_ema s) \<ge> ind_value (slow_ema s) then BUY else SELL)"
    and "price_entry = (if side = BUY then tick_ask t else tick_bid t)"
    and "price_stop_loss =
           (if side = BUY
            then bar_low bar - ind_value (atr s) * SL_atr_multiple s
            else bar_high bar + ind_value (atr s) * SL_atr_multiple s + average_spread fw)"
    and "position_size = calculate sizer_inst (entry_request s fw inst price_entry price_stop_loss)"
    and "position_size > 0"
  shows "on_bar calculate s fw bt bar =
           ([LogInfo (Received_Bar bt bar),
             SubmitAtomicOrder
               \<lparr>ao_symbol = symbol s,
                ao_side = side,
                ao_quantity = position_size,
                ao_price_stop_loss = price_stop_loss,
                ao_price_take_profit =
                  (if side = BUY
                   then price_entry + (price_entry - price_stop_loss)
                   else price_entry - (price_stop_loss - price_entry))\<rparr>
               (next_position_id fw)],
            s\<lparr>liquidity := Some (average_spread fw, ind_value (atr s))\<rparr>,
            None)"
proof (cases "ind_value (slow_ema s) \<le> ind_value (fast_ema s)")
  case True
  with assms show ?thesis
    by (simp add: on_bar_def entry_logic_def buy_logic_def has_ticks_def tick_def
          entry_request_def Let_def)
next
  case False
  with assms show ?thesis
    by (simp add: on_bar_def entry_logic_def sell_logic_def has_ticks_def tick_def
          entry_request_def Let_def)
qed

theorem entry_scenario_witness:
  "indicators_initialized warm_strategy \<and>
   ticks flat_market (symbol warm_strategy) = [\<lparr>tick_bid = 99, tick_ask = 100\<rparr>] \<and>
   orders_working flat_market = [] \<and> is_flat flat_market \<and>
   batch_sizer audusd_instrument
     (entry_request warm_strategy flat_market audusd_instrument 100 88) > 0 \<and>
   on_bar batch_sizer warm_strategy flat_market (audusd, minute_bars) bar_98_102 =
     ([LogInfo (Received_Bar (audusd, minute_bars) bar_98_102),
       SubmitAtomicOrder
         \<lparr>ao_symbol = audusd, ao_side = BUY, ao_quantity = 10000, ao_price_stop_loss = 88,
          ao_price_take_profit = 112\<rparr> 1],
      warm_strategy\<lparr>liquidity := Some (1, 5)\<rparr>, None) \<and>
   on_bar batch_sizer warm_strategy_down flat_market (audusd, minute_bars) bar_98_102 =
     ([LogInfo (Received_Bar (audusd, minute_bars) bar_98_102),
       SubmitAtomicOrder
         \<lparr>ao_symbol = audusd, ao_side = SELL, ao_quantity = 10000, ao_price_stop_loss = 113,
          ao_price_take_profit = 85\<rparr> 1],
      warm_strategy_down\<lparr>liquidity := Some (1, 5)\<rparr>, None)"
  using entry_scenario
      [where s = warm_strategy and fw = flat_market and t = "\<lparr>tick_bid = 99, tick_ask = 100\<rparr>"
         and older = "[]" and precision = 5 and inst = audusd_instrument
         and sizer_inst = audusd_instrument and side = BUY and price_entry = 100
         and price_stop_loss = 88 and bar = bar_98_102 and calculate = batch_sizer
         and position_size = 10000 and bt = "(audusd, minute_bars)"]
    entry_scenario
      [where s = warm_strategy_down and fw = flat_market
         and t = "\<lparr>tick_bid = 99, tick_ask = 100\<rparr>"
         and older = "[]" and precision = 5 and inst = audusd_instrument
         and sizer_inst = audusd_instrument and side = SELL and price_entry = 99
         and price_stop_loss = 113 and bar = bar_98_102 and calculate = batch_sizer
         and position_size = 10000 and bt = "(audusd, minute_bars)"]
  by (simp add: indicators_initialized_def orders_working_def is_flat_def batch_sizer_def
        warm_strategy_def warm_strategy_down_def flat_market_def bar_98_102_def)

text \<open>
  The claim as it was stated fails where the sizer returns zero: flat, warmed up, with a
  tick and the fast EMA above the slow one, the handler submits nothing.
\<close>

theorem entry_scenario_counterexample:
  "indicators_initialized warm_strategy \<and> has_ticks flat_market (symbol warm_strategy) \<and>
   orders_working flat_market = [] \<and> is_flat flat_market \<and>
   ind_value (fast_ema warm_strategy) > ind_value (slow_ema warm_strategy) \<and>
   filter is_submission
     (fst (on_bar zero_sizer warm_strategy flat_market (audusd, minute_bars) bar_98_102)) = []"
  by (simp add: on_bar_def entry_logic_def buy_logic_def indicators_initialized_def
        has_ticks_def tick_def orders_working_def is_flat_def get_exchange_rate_def Let_def
        warm_strategy_def flat_market_def bar_98_102_def zero_sizer_def)

subsection \<open>C7: construction\<close>

text \<open>
  Claim C7, as the code has it. The constructor checks nothing itself: construction fails
  exactly when the constructor of the fast EMA, of the slow EMA or of the ATR rejects its
  period, and a strategy that is constructed holds the risk and the stop-loss multiple it
  was given, whatever they are.
\<close>

theorem construction_validation:
  "(isl (init ExponentialMovingAverage AverageTrueRange sy bar_spec risk_bp_arg
            fast_period slow_period atr_period sl_atr_multiple) \<longleftrightarrow>
      isl (ExponentialMovingAverage fast_period) \<or> isl (ExponentialMovingAverage slow_period) \<or>
      isl (AverageTrueRange atr_period)) \<and>
   (\<forall>s. init ExponentialMovingAverage AverageTrueRange sy bar_spec risk_bp_arg
            fast_period slow_period atr_period sl_atr_multiple = Inr s \<longrightarrow>
        risk_bp s = risk_bp_arg \<and> SL_atr_multiple s = sl_atr_multiple)"
  by (auto simp: init_def split: sum.splits)

theorem construction_validation_witness:
  "isl (checked_indicator 0) \<and>
   isl (init checked_indicator checked_indicator audusd minute_bars 10 0 20 20 2) \<and>
   (\<exists>s. init checked_indicator checked_indicator audusd minute_bars 10 10 20 20 2 = Inr s \<and>
        risk_bp s = 10 \<and> SL_atr_multiple s = 2)"
  using construction_validation
      [of checked_indicator checked_indicator audusd minute_bars 10 0 20 20 2]
    construction_validation
      [of checked_indicator checked_indicator audusd minute_bars 10 10 20 20 2]
  by (simp add: init_def checked_indicator_def)

text \<open>
  The claim as it was stated fails for the risk and the multiple: with a risk of \<open>-1\<close>
  basis points and a multiple of \<open>0\<close> the strategy is constructed.
\<close>

theorem construction_validation_counterexample:
  "\<not> isl (init checked_indicator checked_indicator audusd minute_bars (- 1) 10 20 20 0)"
  by (simp add: init_def checked_indicator_def)

end
